theory Spec2Isabelle
  imports Complex_Main "HOL-Library.Sublist" "HOL-Library.Multiset"
begin

section \<open>Data model\<close>

text \<open>
  An inventory document as the controllers and the browser modules read it. The fields
  \<open>priority\<close> and \<open>alertThreshold\<close> are optional: \<open>None\<close> stands for a field that is
  absent (or holds \<open>null\<close>, \<open>undefined\<close> or \<open>NaN\<close>, which JavaScript treats alike under
  \<open>||\<close>). The \<open>stock\<close> is an integer, as the data model has it; a document without a
  stock is outside the model. The field \<open>id\<close> of the source is \<open>item_id\<close> here.
\<close>

record item =
  item_id :: string
  name :: string
  category :: string
  stock :: int
  priority :: "string option"
  alertThreshold :: "int option"
  updatedBy :: string

text \<open>
  The object \<open>{ priority, threshold }\<close>. In the table \<open>DEFAULT_PRIORITIES\<close> the priority
  is a string and the threshold a number. In what \<open>getProductPriority\<close> returns either
  may be \<open>undefined\<close>; there the fields are options and \<open>None\<close> is \<open>undefined\<close>.
\<close>

record ('p, 't) priority_config =
  cfg_priority :: 'p
  threshold :: 't

text \<open>\<open>STOCK_STATUS\<close> of constants.js, with the string each name stands for.\<close>

datatype stock_status = URGENT | NORMAL | INFO | GOOD | OPTIMAL

fun status_string :: "stock_status \<Rightarrow> string" where
  "status_string URGENT = ''urgent''"
| "status_string NORMAL = ''normal''"
| "status_string INFO = ''info''"
| "status_string GOOD = ''good''"
| "status_string OPTIMAL = ''optimal''"

text \<open>The object \<open>{ status, message }\<close> returned by \<open>calculateStockStatus\<close>.\<close>

record stock_info =
  status :: stock_status
  message :: string

section \<open>JavaScript's \<open>||\<close>, comparison and property lookup\<close>

text \<open>
  \<open>a || d\<close> yields \<open>d\<close> when \<open>a\<close> is falsy. For a string field the falsy values are the
  absent field and the empty string; for a number field the absent field and \<open>0\<close>.
\<close>

definition js_or_str :: "string option \<Rightarrow> string \<Rightarrow> string" where
  "js_or_str a d = (case a of None \<Rightarrow> d | Some s \<Rightarrow> if s = [] then d else s)"

definition js_or_num :: "int option \<Rightarrow> int \<Rightarrow> int" where
  "js_or_num a d = (case a of None \<Rightarrow> d | Some n \<Rightarrow> if n = 0 then d else n)"

text \<open>The same where the right operand may itself be \<open>undefined\<close>.\<close>

definition js_or_str_opt :: "string option \<Rightarrow> string option \<Rightarrow> string option" where
  "js_or_str_opt a d = (case a of None \<Rightarrow> d | Some s \<Rightarrow> if s = [] then d else Some s)"

definition js_or_num_opt :: "int option \<Rightarrow> int option \<Rightarrow> int option" where
  "js_or_num_opt a d = (case a of None \<Rightarrow> d | Some n \<Rightarrow> if n = 0 then d else Some n)"

text \<open>
  \<open>stock <= threshold\<close> where the threshold may be \<open>undefined\<close>: the comparison converts
  \<open>undefined\<close> to \<open>NaN\<close> and is then false. \<open>undefined * 2\<close> is \<open>NaN\<close> as well.
\<close>

definition js_le :: "int \<Rightarrow> int option \<Rightarrow> bool" where
  "js_le s t = (case t of None \<Rightarrow> False | Some n \<Rightarrow> s \<le> n)"

definition js_times :: "int option \<Rightarrow> int \<Rightarrow> int option" where
  "js_times t k = map_option (\<lambda>n. n * k) t"

text \<open>
  \<open>obj[key]\<close> on an object literal finds the object's own properties and, for the keys
  below, a property inherited from \<open>Object.prototype\<close>: a function, or for \<open>__proto__\<close>
  the prototype object itself. Such a value is truthy and has neither a \<open>priority\<close> nor a
  \<open>threshold\<close> property. Any other key yields \<open>undefined\<close>. Freezing the object does
  not change this.
\<close>

definition Object_prototype_properties :: "string list" where
  "Object_prototype_properties =
     [''constructor'', ''hasOwnProperty'', ''isPrototypeOf'', ''propertyIsEnumerable'',
      ''toLocaleString'', ''toString'', ''valueOf'', ''__proto__'', ''__defineGetter__'',
      ''__defineSetter__'', ''__lookupGetter__'', ''__lookupSetter__'']"

datatype 'a property = Own 'a | Inherited | Undefined

definition js_lookup :: "(string \<rightharpoonup> 'a) \<Rightarrow> string \<Rightarrow> 'a property" where
  "js_lookup obj key =
     (case obj key of
        Some v \<Rightarrow> Own v
      | None \<Rightarrow> if key \<in> set Object_prototype_properties then Inherited else Undefined)"

section \<open>Stock classifier (modules/inventory.js)\<close>

definition DEFAULT_PRIORITIES :: "string \<rightharpoonup> (string, int) priority_config" where
  "DEFAULT_PRIORITIES = map_of
     [(''Spirits'', \<lparr>cfg_priority = ''high'', threshold = 2\<rparr>),
      (''Wines'', \<lparr>cfg_priority = ''medium'', threshold = 3\<rparr>),
      (''Beers'', \<lparr>cfg_priority = ''medium'', threshold = 6\<rparr>),
      (''Soft Drinks'', \<lparr>cfg_priority = ''low'', threshold = 12\<rparr>),
      (''Syrups'', \<lparr>cfg_priority = ''medium'', threshold = 2\<rparr>)]"

text \<open>
  \<open>DEFAULT_PRIORITIES[product.category] || { priority: 'medium', threshold: 3 }\<close>, with the
  two fields the caller reads from it. An inherited property is truthy, so the fallback
  is not taken and both fields are \<open>undefined\<close>.
\<close>

definition categoryDefault :: "item \<Rightarrow> (string option, int option) priority_config" where
  "categoryDefault product =
     (case js_lookup DEFAULT_PRIORITIES (category product) of
        Own c \<Rightarrow> \<lparr>cfg_priority = Some (cfg_priority c), threshold = Some (threshold c)\<rparr>
      | Inherited \<Rightarrow> \<lparr>cfg_priority = None, threshold = None\<rparr>
      | Undefined \<Rightarrow> \<lparr>cfg_priority = Some ''medium'', threshold = Some 3\<rparr>)"

definition getProductPriority :: "item \<Rightarrow> (string option, int option) priority_config" where
  "getProductPriority product =
     \<lparr>cfg_priority = js_or_str_opt (priority product) (cfg_priority (categoryDefault product)),
      threshold = js_or_num_opt (alertThreshold product) (threshold (categoryDefault product))\<rparr>"

text \<open>
  The \<open>switch\<close> on the priority has no \<open>default\<close>: a priority that matches no \<open>case\<close>
  leaves the \<open>if\<close> statement and reaches the final \<open>return\<close>.
\<close>

definition calculateStockStatus :: "item \<Rightarrow> stock_info" where
  "calculateStockStatus product =
     (let config = getProductPriority product;
          stock = stock product;
          threshold = threshold config
      in if js_le stock threshold then
           (if cfg_priority config = Some ''high'' then
              \<lparr>status = URGENT, message = ''URGENT: Needs immediate restock!''\<rparr>
            else if cfg_priority config = Some ''medium'' then
              \<lparr>status = NORMAL, message = ''Normal: Restock soon''\<rparr>
            else if cfg_priority config = Some ''low'' then
              \<lparr>status = INFO, message = ''Info: Low stock noted''\<rparr>
            else \<lparr>status = OPTIMAL, message = ''Optimal: Well stocked''\<rparr>)
         else if js_le stock (js_times threshold 2) then
           \<lparr>status = GOOD, message = ''Good: Stock adequate''\<rparr>
         else \<lparr>status = OPTIMAL, message = ''Optimal: Well stocked''\<rparr>)"

section \<open>Stock classifier of the controllers (alerts.controller.js, inventory.controller.js)\<close>

text \<open>
  Both controllers carry the same helper. It resolves the configuration inline and reads
  the stock as \<open>item.stock || 0\<close>. In
  \<open>item.alertThreshold || DEFAULT_PRIORITIES[item.category]?.threshold || 3\<close> the lookup
  of an inherited property gives an object without a \<open>threshold\<close>, the optional chaining
  gives \<open>undefined\<close> for a key that is not found, and the last operand is then taken: here
  the fallback also covers the inherited properties.
\<close>

definition table_threshold :: "string \<Rightarrow> int option" where
  "table_threshold c =
     (case js_lookup DEFAULT_PRIORITIES c of
        Own d \<Rightarrow> Some (threshold d) | Inherited \<Rightarrow> None | Undefined \<Rightarrow> None)"

definition table_priority :: "string \<Rightarrow> string option" where
  "table_priority c =
     (case js_lookup DEFAULT_PRIORITIES c of
        Own d \<Rightarrow> Some (cfg_priority d) | Inherited \<Rightarrow> None | Undefined \<Rightarrow> None)"

definition threshold_controller :: "item \<Rightarrow> int" where
  "threshold_controller item =
     js_or_num (js_or_num_opt (alertThreshold item) (table_threshold (category item))) 3"

definition priority_controller :: "item \<Rightarrow> string" where
  "priority_controller item =
     js_or_str (js_or_str_opt (priority item) (table_priority (category item))) ''medium''"

definition calculateStockStatus_controller :: "item \<Rightarrow> stock_info" where
  "calculateStockStatus_controller item =
     (let threshold = threshold_controller item;
          priority = priority_controller item;
          stock = js_or_num (Some (stock item)) 0
      in if stock \<le> threshold then
           (if priority = ''high'' then
              \<lparr>status = URGENT, message = ''URGENT: Needs immediate restock!''\<rparr>
            else if priority = ''medium'' then
              \<lparr>status = NORMAL, message = ''Normal: Restock soon''\<rparr>
            else if priority = ''low'' then
              \<lparr>status = INFO, message = ''Info: Low stock noted''\<rparr>
            else \<lparr>status = OPTIMAL, message = ''Optimal: Well stocked''\<rparr>)
         else if stock \<le> threshold * 2 then
           \<lparr>status = GOOD, message = ''Good: Stock adequate''\<rparr>
         else \<lparr>status = OPTIMAL, message = ''Optimal: Well stocked''\<rparr>)"

section \<open>Alert heuristics (modules/alerts.js)\<close>

definition estimateDaysUntilEmpty :: "item \<Rightarrow> int" where
  "estimateDaysUntilEmpty product =
     (let averageDailyConsumption = (2::real)
      in max 1 \<lceil>real_of_int (stock product) / averageDailyConsumption\<rceil>)"

text \<open>The arithmetic of \<open>calculateSuggestedQuantity\<close>, on a threshold that is a number.\<close>

definition calculateSuggestedQuantity :: "item \<Rightarrow> ('p, int) priority_config \<Rightarrow> int" where
  "calculateSuggestedQuantity product config =
     (let targetStock = threshold config * 3;
          minimumOrder = 10;
          neededQuantity = targetStock - stock product
      in max minimumOrder neededQuantity)"

text \<open>The controller's copies read the stock as \<open>item.stock || 0\<close>.\<close>

definition estimateDaysUntilEmpty_controller :: "item \<Rightarrow> int" where
  "estimateDaysUntilEmpty_controller item =
     (let avgDailyConsumption = (2::real)
      in max 1 \<lceil>real_of_int (js_or_num (Some (stock item)) 0) / avgDailyConsumption\<rceil>)"

definition calculateSuggestedQuantity_controller :: "item \<Rightarrow> ('p, int) priority_config \<Rightarrow> int" where
  "calculateSuggestedQuantity_controller item config =
     (let targetStock = threshold config * 3;
          minimumOrder = 10;
          neededQuantity = targetStock - js_or_num (Some (stock item)) 0
      in max minimumOrder neededQuantity)"

text \<open>
  A call of either function with the configuration \<open>getProductPriority\<close> returned. When
  its threshold is \<open>undefined\<close> the target stock is \<open>NaN\<close> and so is the result of
  \<open>Math.max\<close>: \<open>None\<close> here.
\<close>

definition suggested_for ::
  "(item \<Rightarrow> (string option, int) priority_config \<Rightarrow> int) \<Rightarrow> item
     \<Rightarrow> (string option, int option) priority_config \<Rightarrow> int option" where
  "suggested_for f product config =
     (case threshold config of
        None \<Rightarrow> None
      | Some t \<Rightarrow> Some (f product \<lparr>cfg_priority = cfg_priority config, threshold = t\<rparr>))"

section \<open>Alert generation (modules/alerts.js)\<close>

text \<open>
  An alert record. The browser module stores the whole product in it; the controller stores
  a projection of the document and adds the document id, hence the type parameter and the
  extension below. The priority and the threshold are those of the resolved
  configuration, which may be \<open>undefined\<close>; the suggested quantity is then \<open>NaN\<close>.
\<close>

record 'p alert =
  product :: 'p
  alert_status :: stock_status
  alert_message :: string
  alert_priority :: "string option"
  alert_threshold :: "int option"
  daysUntilEmpty :: int
  suggestedQuantity :: "int option"

record alertState =
  alerts :: "item alert list"
  urgentCount :: nat
  normalCount :: nat
  infoCount :: nat

definition initial_alertState :: alertState where
  "initial_alertState = \<lparr>alerts = [], urgentCount = 0, normalCount = 0, infoCount = 0\<rparr>"

text \<open>\<open>[STOCK_STATUS.URGENT, STOCK_STATUS.NORMAL, STOCK_STATUS.INFO].includes(status)\<close>\<close>

definition needs_attention :: "stock_status \<Rightarrow> bool" where
  "needs_attention s = (s \<in> set [URGENT, NORMAL, INFO])"

text \<open>The \<open>forEach\<close> loop that pushes an alert for each product needing attention.\<close>

definition push_alert :: "item alert list \<Rightarrow> item \<Rightarrow> item alert list" where
  "push_alert acc p =
     (let stockInfo = calculateStockStatus p;
          config = getProductPriority p
      in if needs_attention (status stockInfo) then
           acc @ [\<lparr>product = p,
                    alert_status = status stockInfo,
                    alert_message = message stockInfo,
                    alert_priority = cfg_priority config,
                    alert_threshold = threshold config,
                    daysUntilEmpty = estimateDaysUntilEmpty p,
                    suggestedQuantity = suggested_for calculateSuggestedQuantity p config\<rparr>]
         else acc)"

text \<open>
  The comparator's table has no entry for \<open>good\<close> and \<open>optimal\<close>: a lookup there is
  \<open>undefined\<close> and the difference is \<open>NaN\<close>, which is \<open>None\<close> here.
\<close>

definition priorityOrder :: "stock_status \<rightharpoonup> int" where
  "priorityOrder = map_of [(URGENT, 3), (NORMAL, 2), (INFO, 1)]"

definition urgency_compare ::
  "('p, 'm) alert_scheme \<Rightarrow> ('p, 'm) alert_scheme \<Rightarrow> int option" where
  "urgency_compare a b =
     (case (priorityOrder (alert_status b), priorityOrder (alert_status a)) of
        (Some x, Some y) \<Rightarrow> Some (x - y)
      | _ \<Rightarrow> None)"

text \<open>
  \<open>Array.prototype.sort\<close> with a comparator: the language requires a stable sort and reads
  a \<open>NaN\<close> from the comparator as \<open>0\<close>. With a consistent comparator the result is the
  one stable ordering, computed here by insertion from the right.
\<close>

fun js_insert :: "('a \<Rightarrow> 'a \<Rightarrow> int option) \<Rightarrow> 'a \<Rightarrow> 'a list \<Rightarrow> 'a list" where
  "js_insert cmp x [] = [x]"
| "js_insert cmp x (y # ys) =
     (if (case cmp x y of None \<Rightarrow> 0 | Some v \<Rightarrow> v) \<le> 0 then x # y # ys
      else y # js_insert cmp x ys)"

definition js_sort :: "('a \<Rightarrow> 'a \<Rightarrow> int option) \<Rightarrow> 'a list \<Rightarrow> 'a list" where
  "js_sort cmp xs = foldr (js_insert cmp) xs []"

text \<open>
  \<open>generateAlerts\<close> replaces the alerts of the state, sorts them and recounts. It
  returns \<open>alertState.alerts\<close>, which is the \<open>alerts\<close> field of the state returned here.
  Notifying the listeners does not touch the state.
\<close>

definition generateAlerts :: "item list \<Rightarrow> alertState \<Rightarrow> alertState" where
  "generateAlerts inventoryItems st =
     (let pushed = foldl push_alert [] inventoryItems;
          sorted = js_sort urgency_compare pushed
      in st\<lparr>alerts := sorted,
            urgentCount := length (filter (\<lambda>a. alert_status a = URGENT) sorted),
            normalCount := length (filter (\<lambda>a. alert_status a = NORMAL) sorted),
            infoCount := length (filter (\<lambda>a. alert_status a = INFO) sorted)\<rparr>)"

subsection \<open>Getters\<close>

definition MAX_VISIBLE_ALERTS :: nat where
  "MAX_VISIBLE_ALERTS = 6"

definition getAlerts :: "alertState \<Rightarrow> item alert list" where
  "getAlerts st = alerts st"

text \<open>\<open>alertState.alerts.slice(0, MAX_VISIBLE_ALERTS)\<close>: a copy, the state is only read.\<close>

definition getDisplayAlerts :: "alertState \<Rightarrow> item alert list" where
  "getDisplayAlerts st = take MAX_VISIBLE_ALERTS (alerts st)"

definition getHiddenAlertCount :: "alertState \<Rightarrow> int" where
  "getHiddenAlertCount st = max 0 (int (length (alerts st)) - int MAX_VISIBLE_ALERTS)"

section \<open>Alerts of the controller (alerts.controller.js)\<close>

text \<open>The \<open>product\<close> object the controller builds: \<open>{ id, name, category, stock }\<close>.\<close>

record product_view =
  pv_id :: string
  pv_name :: string
  pv_category :: string
  pv_stock :: int

record 'p controller_alert = "'p alert" +
  alert_id :: string

text \<open>
  The controller classifies with its own helper and takes the priority and threshold of
  the alert from its \<open>getProductPriority\<close>, which is written as the module's and is the
  same function here.
\<close>

definition push_alert_controller ::
  "product_view controller_alert list \<Rightarrow> item \<Rightarrow> product_view controller_alert list" where
  "push_alert_controller acc item =
     (let stockStatus = calculateStockStatus_controller item
      in if needs_attention (status stockStatus) then
           (let config = getProductPriority item
            in acc @ [\<lparr>product = \<lparr>pv_id = item_id item, pv_name = name item,
                                    pv_category = category item, pv_stock = stock item\<rparr>,
                        alert_status = status stockStatus,
                        alert_message = message stockStatus,
                        alert_priority = cfg_priority config,
                        alert_threshold = threshold config,
                        daysUntilEmpty = estimateDaysUntilEmpty_controller item,
                        suggestedQuantity =
                          suggested_for calculateSuggestedQuantity_controller item config,
                        alert_id = item_id item\<rparr>])
         else acc)"

text \<open>
  The \<open>alerts\<close> array of the response of \<open>GET /api/alerts\<close>. The argument is the snapshot
  of the collection, each document with its id, or \<open>None\<close> when there is no database.
\<close>

definition getAlerts_controller :: "item list option \<Rightarrow> product_view controller_alert list" where
  "getAlerts_controller db =
     (case db of
        None \<Rightarrow> []
      | Some snapshot \<Rightarrow> js_sort urgency_compare (foldl push_alert_controller [] snapshot))"

section \<open>CSV export\<close>

text \<open>Numbers in a template literal or in \<open>join\<close>: the decimal digits, with a sign.\<close>

definition digit_char :: "nat \<Rightarrow> char" where
  "digit_char d = ''0123456789'' ! d"

function show_nat :: "nat \<Rightarrow> string" where
  "show_nat n = (if n < 10 then [digit_char n] else show_nat (n div 10) @ [digit_char (n mod 10)])"
  by pat_completeness auto
termination
  by (relation "measure id") auto

definition show_int :: "int \<Rightarrow> string" where
  "show_int i = (if i < 0 then CHR ''-'' # show_nat (nat (- i)) else show_nat (nat i))"

text \<open>
  An element of an array under \<open>join\<close>: \<open>undefined\<close> gives the empty string. A \<open>NaN\<close>
  gives \<open>NaN\<close>. In a template literal \<open>undefined\<close> gives the word \<open>undefined\<close>.
\<close>

definition join_element :: "string option \<Rightarrow> string" where
  "join_element x = (case x of None \<Rightarrow> [] | Some s \<Rightarrow> s)"

definition show_number :: "int option \<Rightarrow> string" where
  "show_number x = (case x of None \<Rightarrow> ''NaN'' | Some n \<Rightarrow> show_int n)"

definition template_element :: "string option \<Rightarrow> string" where
  "template_element x = (case x of None \<Rightarrow> ''undefined'' | Some s \<Rightarrow> s)"

text \<open>\<open>Array.prototype.join\<close>\<close>

fun join :: "string \<Rightarrow> string list \<Rightarrow> string" where
  "join sep [] = []"
| "join sep [x] = x"
| "join sep (x # y # ys) = x @ sep @ join sep (y # ys)"

text \<open>\<open>toUpperCase\<close>, on the ASCII letters the status strings are made of.\<close>

definition toUpperCase :: "string \<Rightarrow> string" where
  "toUpperCase s =
     map (\<lambda>c. case map_of (zip ''abcdefghijklmnopqrstuvwxyz'' ''ABCDEFGHIJKLMNOPQRSTUVWXYZ'') c of
                 None \<Rightarrow> c | Some u \<Rightarrow> u) s"

text \<open>The double quote character and the line feed.\<close>

definition dquote :: char where
  "dquote = CHR 0x22"

definition newline :: char where
  "newline = CHR 0x0A"

definition csv_headers :: "string list" where
  "csv_headers = [''Product'', ''Category'', ''Current Stock'', ''Threshold'', ''Priority'',
     ''Status'', ''Message'', ''Days Until Empty'', ''Suggested Quantity'']"

definition csv_row :: "item alert \<Rightarrow> string" where
  "csv_row alert = join '',''
     [[dquote] @ name (product alert) @ [dquote],
      category (product alert),
      show_int (stock (product alert)),
      join_element (map_option show_int (alert_threshold alert)),
      join_element (alert_priority alert),
      toUpperCase (status_string (alert_status alert)),
      [dquote] @ alert_message alert @ [dquote],
      show_int (daysUntilEmpty alert),
      show_number (suggestedQuantity alert)]"

text \<open>
  The result of \<open>exportAlertsAsCSV\<close> without its \<open>filename\<close>, which is built from the
  current date.
\<close>

record csv_export =
  content :: string
  rowCount :: nat

definition exportAlertsAsCSV :: "alertState \<Rightarrow> csv_export" where
  "exportAlertsAsCSV st =
     (let rows = map csv_row (alerts st);
          csvContent = join [newline] (join '','' csv_headers # rows)
      in \<lparr>content = csvContent, rowCount = length (alerts st)\<rparr>)"

text \<open>The body sent by \<open>GET /api/alerts/export\<close>.\<close>

definition csv_row_controller :: "item \<Rightarrow> string" where
  "csv_row_controller item =
     (let stockStatus = calculateStockStatus_controller item;
          config = getProductPriority item
      in [dquote] @ name item @ [dquote] @ '','' @ category item @ '','' @ show_int (stock item)
           @ '','' @ template_element (map_option show_int (threshold config))
           @ '','' @ template_element (cfg_priority config)
           @ '','' @ status_string (status stockStatus)
           @ '','' @ [dquote] @ message stockStatus @ [dquote]
           @ '','' @ show_int (estimateDaysUntilEmpty_controller item) @ [newline])"

definition exportAlerts_controller :: "item list option \<Rightarrow> string" where
  "exportAlerts_controller db =
     (case db of
        None \<Rightarrow> ''Product,Category,Stock,Threshold,Priority,Status'' @ [newline]
      | Some snapshot \<Rightarrow>
          foldl (\<lambda>csvContent item.
                   if needs_attention (status (calculateStockStatus_controller item))
                   then csvContent @ csv_row_controller item else csvContent)
            (''Product,Category,Current Stock,Threshold,Priority,Status,Message,Days Until Empty''
               @ [newline])
            snapshot)"

text \<open>
  A field quoted as RFC 4180 prescribes, for comparison with what the export writes:
  enclosed in double quotes, each double quote inside it doubled.
\<close>

definition csv_escaped_field :: "string \<Rightarrow> string" where
  "csv_escaped_field s =
     [dquote] @ concat (map (\<lambda>c. if c = dquote then [dquote, dquote] else [c]) s) @ [dquote]"

section \<open>Permissions (modules/auth.js)\<close>

text \<open>The Firebase user object; the module reads its \<open>email\<close> only.\<close>

record user =
  email :: string

record authState =
  currentUser :: "user option"
  userRole :: string
  isAuthenticated :: bool

definition USER_ROLES :: "string \<rightharpoonup> string" where
  "USER_ROLES = map_of
     [(''admin@inventory.com'', ''admin''),
      (''manager@inventory.com'', ''manager''),
      (''staff@inventory.com'', ''staff''),
      (''admin@wishbone.com'', ''admin''),
      (''manager@wishbone.com'', ''manager''),
      (''staff@wishbone.com'', ''staff'')]"

definition initial_authState :: authState where
  "initial_authState = \<lparr>currentUser = None, userRole = ''staff'', isAuthenticated = False\<rparr>"

text \<open>The handler that \<open>initAuth\<close> registers with \<open>onAuthStateChanged\<close>.\<close>

definition authStateChanged :: "user option \<Rightarrow> authState \<Rightarrow> authState" where
  "authStateChanged u st =
     (case u of
        Some usr \<Rightarrow>
          st\<lparr>currentUser := Some usr,
             userRole := js_or_str (USER_ROLES (email usr)) ''staff'',
             isAuthenticated := True\<rparr>
      | None \<Rightarrow>
          st\<lparr>currentUser := None, userRole := ''staff'', isAuthenticated := False\<rparr>)"

definition canModifyStock :: "authState \<Rightarrow> bool" where
  "canModifyStock st = (currentUser st \<noteq> None)"

definition canManageProducts :: "authState \<Rightarrow> bool" where
  "canManageProducts st = (userRole st = ''admin'' \<or> userRole st = ''manager'')"

definition canManagePriorities :: "authState \<Rightarrow> bool" where
  "canManagePriorities st = (userRole st = ''admin'')"

section \<open>Stock update\<close>

subsection \<open>\<open>PATCH /api/inventory/:id/stock\<close> (inventory.controller.js)\<close>

text \<open>
  The collection maps document ids to documents; \<open>None\<close> is the missing database. The
  request carries the id, the body's \<open>quantity\<close> and \<open>action\<close> (either may be absent) and
  the email of the user. \<open>parseInt\<close> of an integer quantity is that integer. Every
  \<open>throw\<close> comes before the write, so the handler returns the collection with the outcome.
  The timestamp written with the stock is left out.
\<close>

datatype api_error = ApiError nat string

type_synonym collection = "string \<rightharpoonup> item"

record stock_request =
  req_id :: string
  quantity :: "int option"
  action :: "string option"
  req_user_email :: string

record stock_response =
  resp_id :: string
  previousStock :: int
  newStock :: int
  change :: int

definition write_stock ::
  "collection \<Rightarrow> stock_request \<Rightarrow> item \<Rightarrow> int \<Rightarrow> int \<Rightarrow> int
     \<Rightarrow> collection option \<times> (api_error + stock_response)" where
  "write_stock coll req doc currentStock q new =
     (Some (coll(req_id req \<mapsto> doc\<lparr>stock := new, updatedBy := req_user_email req\<rparr>)),
      Inr \<lparr>resp_id = req_id req, previousStock = currentStock, newStock = new,
           change = (if action req = Some ''add'' then q else - q)\<rparr>)"

definition updateStock ::
  "collection option \<Rightarrow> stock_request \<Rightarrow> collection option \<times> (api_error + stock_response)" where
  "updateStock db req =
     (case db of
        None \<Rightarrow> (db, Inl (ApiError 500 ''Database not available''))
      | Some coll \<Rightarrow>
          (case quantity req of
             None \<Rightarrow> (db, Inl (ApiError 400 ''Quantity and action are required''))
           | Some q \<Rightarrow>
               if action req = None \<or> action req = Some [] then
                 (db, Inl (ApiError 400 ''Quantity and action are required''))
               else
                 (case coll (req_id req) of
                    None \<Rightarrow> (db, Inl (ApiError 404 ''Item not found''))
                  | Some doc \<Rightarrow>
                      (let currentStock = js_or_num (Some (stock doc)) 0
                       in if action req = Some ''add'' then
                            write_stock coll req doc currentStock q (currentStock + q)
                          else if action req = Some ''subtract'' then
                            (let new = currentStock - q
                             in if new < 0 then
                                  (db, Inl (ApiError 400 ''Cannot have negative stock''))
                                else write_stock coll req doc currentStock q new)
                          else
                            (db, Inl (ApiError 400
                               (''Action must be '' @ [dquote] @ ''add'' @ [dquote] @ '' or ''
                                  @ [dquote] @ ''subtract'' @ [dquote])))))))"

subsection \<open>\<open>updateStock\<close> of the browser module (modules/inventory.js)\<close>

text \<open>
  The module receives the new stock itself. \<open>updateDoc\<close> rejects when the document does
  not exist; the \<open>catch\<close> turns that into the update error.
\<close>

definition updateStock_module ::
  "collection \<Rightarrow> string \<Rightarrow> int \<Rightarrow> string \<Rightarrow> collection \<times> (string + unit)" where
  "updateStock_module coll itemId new user_email =
     (if new < 0 then (coll, Inl ''Cannot have negative stock!'')
      else
        (case coll itemId of
           None \<Rightarrow> (coll, Inl ''Error updating stock'')
         | Some doc \<Rightarrow> (coll(itemId \<mapsto> doc\<lparr>stock := new, updatedBy := user_email\<rparr>), Inr ())))"

section \<open>Sample data\<close>

text \<open>Products in the style of the test suites, one for each status, and a batch of them.\<close>

definition sample :: "string \<Rightarrow> string \<Rightarrow> int \<Rightarrow> item" where
  "sample n c s = \<lparr>item_id = n, name = n, category = c, stock = s,
     priority = None, alertThreshold = None, updatedBy = []\<rparr>"

definition vodka :: item where
  "vodka = sample ''Vodka'' ''Spirits'' 1"

definition wine :: item where
  "wine = sample ''Wine'' ''Wines'' 2"

definition cola :: item where
  "cola = sample ''Cola'' ''Soft Drinks'' 5"

definition rum :: item where
  "rum = sample ''Rum'' ''Spirits'' 3"

definition beer :: item where
  "beer = sample ''Beer'' ''Beers'' 200"

definition mixed_batch :: "item list" where
  "mixed_batch = [cola, rum, vodka, beer, wine]"

text \<open>A product whose own priority is none of the three levels, with its own threshold.\<close>

definition odd_priority :: "int \<Rightarrow> item" where
  "odd_priority s = (sample ''Grappa'' ''Spirits'' s)
     \<lparr>priority := Some ''critical'', alertThreshold := Some 3\<rparr>"

text \<open>Names with an apostrophe and with double quotes.\<close>

definition apostrophe :: char where
  "apostrophe = CHR 0x27"

definition jack_daniels :: item where
  "jack_daniels = sample (''Jack Daniel'' @ [apostrophe] @ ''s'') ''Spirits'' 1"

definition old_no7 :: item where
  "old_no7 = sample (''Old '' @ [dquote] @ ''No. 7'' @ [dquote]) ''Spirits'' 1"

text \<open>A collection with one document, and requests to change its stock.\<close>

definition shelf :: collection where
  "shelf = [''item1'' \<mapsto> sample ''Vodka'' ''Spirits'' 3]"

definition stock_change :: "string \<Rightarrow> int \<Rightarrow> stock_request" where
  "stock_change act q = \<lparr>req_id = ''item1'', quantity = Some q, action = Some act,
     req_user_email = ''staff@inventory.com''\<rparr>"

text \<open>A product with a negative stock and a negative threshold of its own.\<close>

definition below_zero :: item where
  "below_zero = (sample ''Gin'' ''Spirits'' (- 4))
     \<lparr>priority := Some ''high'', alertThreshold := Some (- 3)\<rparr>"

text \<open>
  A product whose category is the name of a property every object inherits, with the
  threshold 0 of its own.
\<close>

definition inherited_category :: item where
  "inherited_category = (sample ''Mystery'' ''constructor'' 1)\<lparr>alertThreshold := Some 0\<rparr>"

text \<open>The same category, with a priority that is none of the three levels.\<close>

definition odd_inherited :: item where
  "odd_inherited = (sample ''Mystery'' ''constructor'' 1)\<lparr>priority := Some ''critical''\<rparr>"

section \<open>Properties of the classifier\<close>

lemma js_or_num_Some_zero [simp]: "js_or_num (Some n) 0 = n"
  by (simp add: js_or_num_def)

lemma DEFAULT_PRIORITIES_nonfalsy:
  "DEFAULT_PRIORITIES c = Some d \<Longrightarrow> threshold d \<noteq> 0 \<and> cfg_priority d \<noteq> []"
  by (auto simp: DEFAULT_PRIORITIES_def split: if_splits)

lemma DEFAULT_PRIORITIES_keys:
  "DEFAULT_PRIORITIES c = Some d \<Longrightarrow> c \<notin> set Object_prototype_properties"
  by (auto simp: DEFAULT_PRIORITIES_def Object_prototype_properties_def split: if_splits)

text \<open>
  For a category that is not the name of an inherited property the default is the table
  entry or \<open>{medium, 3}\<close>, and the controllers resolve what the module resolves.
\<close>

lemma categoryDefault_known:
  assumes "category it \<notin> set Object_prototype_properties"
  shows "categoryDefault it =
     (case DEFAULT_PRIORITIES (category it) of
        Some c \<Rightarrow> \<lparr>cfg_priority = Some (cfg_priority c), threshold = Some (threshold c)\<rparr>
      | None \<Rightarrow> \<lparr>cfg_priority = Some ''medium'', threshold = Some 3\<rparr>)"
  using assms by (simp add: categoryDefault_def js_lookup_def split: option.splits)

lemma categoryDefault_inherited:
  assumes "category it \<in> set Object_prototype_properties"
  shows "categoryDefault it = \<lparr>cfg_priority = None, threshold = None\<rparr>"
proof -
  have "DEFAULT_PRIORITIES (category it) = None"
    using assms DEFAULT_PRIORITIES_keys [of "category it"] by (cases "DEFAULT_PRIORITIES (category it)") auto
  with assms show ?thesis
    by (simp add: categoryDefault_def js_lookup_def)
qed

lemma categoryDefault_nonfalsy:
  "threshold (categoryDefault it) \<noteq> Some 0" "cfg_priority (categoryDefault it) \<noteq> Some []"
  using DEFAULT_PRIORITIES_nonfalsy [of "category it"]
  by (auto simp: categoryDefault_def js_lookup_def split: option.splits)

lemma controller_resolution:
  assumes "category item \<notin> set Object_prototype_properties"
  shows "threshold (getProductPriority item) = Some (threshold_controller item)"
    and "cfg_priority (getProductPriority item) = Some (priority_controller item)"
  using assms DEFAULT_PRIORITIES_nonfalsy [of "category item"]
  by (auto simp: getProductPriority_def categoryDefault_def threshold_controller_def
      priority_controller_def table_threshold_def table_priority_def js_lookup_def
      js_or_num_def js_or_str_def js_or_num_opt_def js_or_str_opt_def split: option.splits)

lemma calculateStockStatus_controller_eq:
  assumes "category item \<notin> set Object_prototype_properties"
  shows "calculateStockStatus_controller item = calculateStockStatus item"
  using controller_resolution [OF assms]
  by (simp add: calculateStockStatus_controller_def calculateStockStatus_def Let_def
      js_le_def js_times_def)

text \<open>The resolved configurations of the sample products.\<close>

lemma sample_config:
  "getProductPriority vodka = \<lparr>cfg_priority = Some ''high'', threshold = Some 2\<rparr>"
  "getProductPriority wine = \<lparr>cfg_priority = Some ''medium'', threshold = Some 3\<rparr>"
  "getProductPriority cola = \<lparr>cfg_priority = Some ''low'', threshold = Some 12\<rparr>"
  "getProductPriority rum = \<lparr>cfg_priority = Some ''high'', threshold = Some 2\<rparr>"
  "getProductPriority beer = \<lparr>cfg_priority = Some ''medium'', threshold = Some 6\<rparr>"
  "getProductPriority (odd_priority s) = \<lparr>cfg_priority = Some ''critical'', threshold = Some 3\<rparr>"
  "getProductPriority below_zero = \<lparr>cfg_priority = Some ''high'', threshold = Some (- 3)\<rparr>"
  by (simp_all add: getProductPriority_def categoryDefault_def js_lookup_def
      DEFAULT_PRIORITIES_def js_or_str_opt_def js_or_num_opt_def sample_def vodka_def wine_def
      cola_def rum_def beer_def odd_priority_def below_zero_def)

lemma sample_controller:
  "threshold_controller vodka = 2" "priority_controller vodka = ''high''"
  "threshold_controller wine = 3" "priority_controller wine = ''medium''"
  "threshold_controller cola = 12" "priority_controller cola = ''low''"
  "threshold_controller rum = 2" "priority_controller rum = ''high''"
  "threshold_controller beer = 6" "priority_controller beer = ''medium''"
  "threshold_controller (odd_priority s) = 3" "priority_controller (odd_priority s) = ''critical''"
  "threshold_controller below_zero = - 3" "priority_controller below_zero = ''high''"
  by (simp_all add: threshold_controller_def priority_controller_def table_threshold_def
      table_priority_def js_lookup_def DEFAULT_PRIORITIES_def js_or_str_opt_def
      js_or_num_opt_def js_or_str_def js_or_num_def sample_def vodka_def wine_def cola_def
      rum_def beer_def odd_priority_def below_zero_def)

lemma sample_stock:
  "stock vodka = 1" "stock wine = 2" "stock cola = 5" "stock rum = 3" "stock beer = 200"
  "stock (odd_priority s) = s" "stock below_zero = - 4"
  by (simp_all add: sample_def vodka_def wine_def cola_def rum_def beer_def odd_priority_def
      below_zero_def)




text \<open>
  Whatever the category, an own threshold of 0 and an empty own priority are passed over
  as an absent field is, in the module and in the controllers, and a resolved threshold
  is never 0.
\<close>

lemma getProductPriority_falsy_fields:
  "getProductPriority (it\<lparr>alertThreshold := Some 0\<rparr>)
     = getProductPriority (it\<lparr>alertThreshold := None\<rparr>)
   \<and> threshold (getProductPriority (it\<lparr>alertThreshold := Some 0\<rparr>))
     = threshold (categoryDefault it)
   \<and> threshold (getProductPriority (it\<lparr>alertThreshold := Some 0\<rparr>)) \<noteq> Some 0
   \<and> getProductPriority (it\<lparr>priority := Some []\<rparr>)
     = getProductPriority (it\<lparr>priority := None\<rparr>)
   \<and> cfg_priority (getProductPriority (it\<lparr>priority := Some []\<rparr>))
     = cfg_priority (categoryDefault it)
   \<and> calculateStockStatus (it\<lparr>alertThreshold := Some 0\<rparr>)
     = calculateStockStatus (it\<lparr>alertThreshold := None\<rparr>)
   \<and> calculateStockStatus_controller (it\<lparr>alertThreshold := Some 0\<rparr>)
     = calculateStockStatus_controller (it\<lparr>alertThreshold := None\<rparr>)"
proof -
  have cd: "categoryDefault (it\<lparr>alertThreshold := a\<rparr>) = categoryDefault it"
    "categoryDefault (it\<lparr>priority := p\<rparr>) = categoryDefault it" for a p
    by (simp_all add: categoryDefault_def)
  have g: "getProductPriority (it\<lparr>alertThreshold := Some 0\<rparr>)
      = getProductPriority (it\<lparr>alertThreshold := None\<rparr>)"
    by (simp add: getProductPriority_def js_or_num_opt_def cd)
  have t: "threshold (getProductPriority (it\<lparr>alertThreshold := Some 0\<rparr>))
      = threshold (categoryDefault it)"
    by (simp add: getProductPriority_def js_or_num_opt_def cd)
  have p: "getProductPriority (it\<lparr>priority := Some []\<rparr>)
      = getProductPriority (it\<lparr>priority := None\<rparr>)"
    by (simp add: getProductPriority_def js_or_str_opt_def cd)
  have q: "cfg_priority (getProductPriority (it\<lparr>priority := Some []\<rparr>))
      = cfg_priority (categoryDefault it)"
    by (simp add: getProductPriority_def js_or_str_opt_def cd)
  have s: "calculateStockStatus (it\<lparr>alertThreshold := Some 0\<rparr>)
      = calculateStockStatus (it\<lparr>alertThreshold := None\<rparr>)"
    by (simp add: calculateStockStatus_def g)
  have k: "calculateStockStatus_controller (it\<lparr>alertThreshold := Some 0\<rparr>)
      = calculateStockStatus_controller (it\<lparr>alertThreshold := None\<rparr>)"
    by (simp add: calculateStockStatus_controller_def threshold_controller_def
        priority_controller_def js_or_num_opt_def)
  show ?thesis
    using g t p q s k categoryDefault_nonfalsy(1) [of it] by simp
qed

text \<open>
  For a category that names no inherited property, the default resolved in place of a
  falsy field is the table entry or \<open>{medium, 3}\<close>.
\<close>

lemma getProductPriority_falsy_fields_known:
  assumes "category it \<notin> set Object_prototype_properties"
  shows "threshold (getProductPriority (it\<lparr>alertThreshold := Some 0\<rparr>))
     = (case DEFAULT_PRIORITIES (category it) of
          Some c \<Rightarrow> Some (threshold c) | None \<Rightarrow> Some 3)"
    and "cfg_priority (getProductPriority (it\<lparr>priority := Some []\<rparr>))
     = (case DEFAULT_PRIORITIES (category it) of
          Some c \<Rightarrow> Some (cfg_priority c) | None \<Rightarrow> Some ''medium'')"
  using assms
  by (simp_all add: getProductPriority_def js_or_num_opt_def js_or_str_opt_def
      categoryDefault_def js_lookup_def split: option.splits)

text \<open>
  Claim C9 fails on the code where the category is the name of a property that the table
  object inherits. For the category \<open>constructor\<close> and the own threshold 0 the lookup in
  the table finds the inherited function, the fallback \<open>{medium, 3}\<close> is not taken, and
  \<open>getProductPriority\<close> returns a configuration with both fields undefined; the module
  then classifies the product, of stock 1, as OPTIMAL. The controllers' helper resolves
  \<open>medium\<close> and 3 for the same document and classifies it as NORMAL.
\<close>

theorem getProductPriority_inherited_category:
  "category inherited_category = ''constructor''
   \<and> alertThreshold inherited_category = Some 0
   \<and> stock inherited_category = 1
   \<and> js_lookup DEFAULT_PRIORITIES ''constructor'' = Inherited
   \<and> getProductPriority inherited_category = \<lparr>cfg_priority = None, threshold = None\<rparr>
   \<and> calculateStockStatus inherited_category
     = \<lparr>status = OPTIMAL, message = ''Optimal: Well stocked''\<rparr>
   \<and> threshold_controller inherited_category = 3
   \<and> priority_controller inherited_category = ''medium''
   \<and> calculateStockStatus_controller inherited_category
     = \<lparr>status = NORMAL, message = ''Normal: Restock soon''\<rparr>"
proof -
  have l: "js_lookup DEFAULT_PRIORITIES ''constructor'' = Inherited"
    by (simp add: js_lookup_def DEFAULT_PRIORITIES_def Object_prototype_properties_def)
  have f: "category inherited_category = ''constructor''"
    "alertThreshold inherited_category = Some 0" "priority inherited_category = None"
    "stock inherited_category = 1"
    by (simp_all add: inherited_category_def sample_def)
  have g: "getProductPriority inherited_category = \<lparr>cfg_priority = None, threshold = None\<rparr>"
    by (simp add: getProductPriority_def categoryDefault_def l f js_or_str_opt_def
        js_or_num_opt_def)
  have t: "threshold_controller inherited_category = 3"
    "priority_controller inherited_category = ''medium''"
    by (simp_all add: threshold_controller_def priority_controller_def table_threshold_def
        table_priority_def l f js_or_str_opt_def js_or_num_opt_def js_or_str_def js_or_num_def)
  show ?thesis
    using l f g t
    by (simp add: calculateStockStatus_def calculateStockStatus_controller_def js_le_def
        js_times_def)
qed

text \<open>
  Claim C10, as amended. \<open>calculateStockStatus\<close> returns a result for every priority
  string. For an item whose resolved priority is none of \<open>high\<close>, \<open>medium\<close>, \<open>low\<close> it
  returns OPTIMAL with the message \<open>Optimal: Well stocked\<close> when the stock is at most the
  threshold (the unmatched switch reaches the final return), when the stock does not lie
  in the GOOD band, and when the threshold is undefined; in the GOOD band, above the
  threshold and at most twice the threshold, it returns GOOD as it does for any priority.
  The same holds of the controllers' helper on the configuration it resolves.
\<close>

theorem calculateStockStatus_unmatched_priority:
  "(cfg_priority (getProductPriority it) \<notin> {Some ''high'', Some ''medium'', Some ''low''} \<longrightarrow>
      (threshold (getProductPriority it) = Some t \<and> stock it \<le> t
        \<longrightarrow> calculateStockStatus it
              = \<lparr>status = OPTIMAL, message = ''Optimal: Well stocked''\<rparr>)
    \<and> (threshold (getProductPriority it) = Some t \<and> \<not> (t < stock it \<and> stock it \<le> t * 2)
        \<longrightarrow> calculateStockStatus it
              = \<lparr>status = OPTIMAL, message = ''Optimal: Well stocked''\<rparr>)
    \<and> (threshold (getProductPriority it) = None
        \<longrightarrow> calculateStockStatus it
              = \<lparr>status = OPTIMAL, message = ''Optimal: Well stocked''\<rparr>)
    \<and> (threshold (getProductPriority it) = Some t \<and> t < stock it \<and> stock it \<le> t * 2
        \<longrightarrow> calculateStockStatus it
              = \<lparr>status = GOOD, message = ''Good: Stock adequate''\<rparr>))
   \<and> (priority_controller it \<notin> {''high'', ''medium'', ''low''} \<longrightarrow>
      (stock it \<le> threshold_controller it
        \<longrightarrow> calculateStockStatus_controller it
              = \<lparr>status = OPTIMAL, message = ''Optimal: Well stocked''\<rparr>)
    \<and> (\<not> (threshold_controller it < stock it \<and> stock it \<le> threshold_controller it * 2)
        \<longrightarrow> calculateStockStatus_controller it
              = \<lparr>status = OPTIMAL, message = ''Optimal: Well stocked''\<rparr>)
    \<and> (threshold_controller it < stock it \<and> stock it \<le> threshold_controller it * 2
        \<longrightarrow> calculateStockStatus_controller it
              = \<lparr>status = GOOD, message = ''Good: Stock adequate''\<rparr>))"
proof -
  have m: "cfg_priority (getProductPriority it) \<notin> {Some ''high'', Some ''medium'', Some ''low''} \<longrightarrow>
      (threshold (getProductPriority it) = Some t \<and> stock it \<le> t
        \<longrightarrow> calculateStockStatus it
              = \<lparr>status = OPTIMAL, message = ''Optimal: Well stocked''\<rparr>)
    \<and> (threshold (getProductPriority it) = Some t \<and> \<not> (t < stock it \<and> stock it \<le> t * 2)
        \<longrightarrow> calculateStockStatus it
              = \<lparr>status = OPTIMAL, message = ''Optimal: Well stocked''\<rparr>)
    \<and> (threshold (getProductPriority it) = None
        \<longrightarrow> calculateStockStatus it
              = \<lparr>status = OPTIMAL, message = ''Optimal: Well stocked''\<rparr>)
    \<and> (threshold (getProductPriority it) = Some t \<and> t < stock it \<and> stock it \<le> t * 2
        \<longrightarrow> calculateStockStatus it
              = \<lparr>status = GOOD, message = ''Good: Stock adequate''\<rparr>)"
    by (auto simp: calculateStockStatus_def Let_def js_le_def js_times_def)
  have c: "priority_controller it \<notin> {''high'', ''medium'', ''low''} \<longrightarrow>
      (stock it \<le> threshold_controller it
        \<longrightarrow> calculateStockStatus_controller it
              = \<lparr>status = OPTIMAL, message = ''Optimal: Well stocked''\<rparr>)
    \<and> (\<not> (threshold_controller it < stock it \<and> stock it \<le> threshold_controller it * 2)
        \<longrightarrow> calculateStockStatus_controller it
              = \<lparr>status = OPTIMAL, message = ''Optimal: Well stocked''\<rparr>)
    \<and> (threshold_controller it < stock it \<and> stock it \<le> threshold_controller it * 2
        \<longrightarrow> calculateStockStatus_controller it
              = \<lparr>status = GOOD, message = ''Good: Stock adequate''\<rparr>)"
    by (auto simp: calculateStockStatus_controller_def Let_def)
  from m c show ?thesis by blast
qed

theorem calculateStockStatus_unmatched_priority_witness:
  "cfg_priority (getProductPriority (odd_priority 1)) \<notin> {Some ''high'', Some ''medium'', Some ''low''}
   \<and> threshold (getProductPriority (odd_priority 1)) = Some 3
   \<and> stock (odd_priority 1) \<le> 3
   \<and> calculateStockStatus (odd_priority 1)
     = \<lparr>status = OPTIMAL, message = ''Optimal: Well stocked''\<rparr>
   \<and> priority_controller (odd_priority 1) \<notin> {''high'', ''medium'', ''low''}
   \<and> stock (odd_priority 1) \<le> threshold_controller (odd_priority 1)
   \<and> calculateStockStatus_controller (odd_priority 1)
     = \<lparr>status = OPTIMAL, message = ''Optimal: Well stocked''\<rparr>
   \<and> cfg_priority (getProductPriority (odd_priority 4)) \<notin> {Some ''high'', Some ''medium'', Some ''low''}
   \<and> threshold (getProductPriority (odd_priority 4)) = Some 3
   \<and> 3 < stock (odd_priority 4) \<and> stock (odd_priority 4) \<le> 3 * 2
   \<and> calculateStockStatus (odd_priority 4)
     = \<lparr>status = GOOD, message = ''Good: Stock adequate''\<rparr>
   \<and> priority_controller (odd_priority 4) \<notin> {''high'', ''medium'', ''low''}
   \<and> threshold_controller (odd_priority 4) < stock (odd_priority 4)
   \<and> stock (odd_priority 4) \<le> threshold_controller (odd_priority 4) * 2
   \<and> calculateStockStatus_controller (odd_priority 4)
     = \<lparr>status = GOOD, message = ''Good: Stock adequate''\<rparr>
   \<and> cfg_priority (getProductPriority odd_inherited) \<notin> {Some ''high'', Some ''medium'', Some ''low''}
   \<and> threshold (getProductPriority odd_inherited) = None
   \<and> calculateStockStatus odd_inherited
     = \<lparr>status = OPTIMAL, message = ''Optimal: Well stocked''\<rparr>"
proof -
  have i: "getProductPriority odd_inherited = \<lparr>cfg_priority = Some ''critical'', threshold = None\<rparr>"
    by (simp add: getProductPriority_def categoryDefault_def js_lookup_def
        DEFAULT_PRIORITIES_def Object_prototype_properties_def js_or_str_opt_def
        js_or_num_opt_def odd_inherited_def sample_def)
  show ?thesis
    using calculateStockStatus_unmatched_priority [of "odd_priority 1" 3]
      calculateStockStatus_unmatched_priority [of "odd_priority 4" 3]
      calculateStockStatus_unmatched_priority [of odd_inherited 0]
    by (simp add: sample_config sample_stock sample_controller i)
qed

text \<open>
  The claim as stated, without a condition on the stock, fails: a product with the
  priority \<open>critical\<close>, threshold 3 and stock 4 is classified GOOD, by the module and by the
  controllers.
\<close>

theorem calculateStockStatus_unmatched_priority_counterexample:
  "cfg_priority (getProductPriority (odd_priority 4)) \<notin> {Some ''high'', Some ''medium'', Some ''low''}
   \<and> calculateStockStatus (odd_priority 4)
     \<noteq> \<lparr>status = OPTIMAL, message = ''Optimal: Well stocked''\<rparr>
   \<and> status (calculateStockStatus (odd_priority 4)) = GOOD
   \<and> priority_controller (odd_priority 4) \<notin> {''high'', ''medium'', ''low''}
   \<and> status (calculateStockStatus_controller (odd_priority 4)) = GOOD"
  by (simp add: calculateStockStatus_def calculateStockStatus_controller_def js_le_def
      js_times_def sample_config sample_stock sample_controller)

section \<open>Properties of the alert heuristics\<close>

lemma ceiling_half: "\<lceil>real_of_int a / 2\<rceil> = (a + 1) div 2"
proof -
  have "\<lceil>real_of_int a / real_of_int 2\<rceil> = - (- a div 2)"
    by (rule ceiling_divide_eq_div)
  also have "\<dots> = (a + 1) div 2"
    by presburger
  finally show ?thesis by simp
qed


text \<open>
  Claim C5. \<open>estimateDaysUntilEmpty\<close> returns \<open>max(1, ceil(stock / 2))\<close>, which on the
  integers is \<open>max(1, (stock + 1) div 2)\<close>: 1 for stock 0 and 5 for stock 9. The
  controller's copy computes the same.
\<close>

theorem estimateDaysUntilEmpty_formula:
  "estimateDaysUntilEmpty p = max 1 \<lceil>real_of_int (stock p) / 2\<rceil>
   \<and> estimateDaysUntilEmpty p = max 1 ((stock p + 1) div 2)
   \<and> estimateDaysUntilEmpty (p\<lparr>stock := 0\<rparr>) = 1
   \<and> estimateDaysUntilEmpty (p\<lparr>stock := 9\<rparr>) = 5
   \<and> estimateDaysUntilEmpty_controller p = estimateDaysUntilEmpty p"
  by (simp add: estimateDaysUntilEmpty_def estimateDaysUntilEmpty_controller_def ceiling_half)

section \<open>Properties of the alert generator\<close>

lemma foldl_push_alert:
  "foldl push_alert acc items = acc @ concat (map (push_alert []) items)"
proof (induction items arbitrary: acc)
  case Nil
  show ?case by simp
next
  case (Cons p ps)
  have "push_alert acc p = acc @ push_alert [] p"
    by (simp add: push_alert_def Let_def)
  then show ?case
    by (simp add: Cons.IH)
qed

lemma push_alert_single:
  "push_alert [] p =
     (if needs_attention (status (calculateStockStatus p))
      then [\<lparr>product = p,
             alert_status = status (calculateStockStatus p),
             alert_message = message (calculateStockStatus p),
             alert_priority = cfg_priority (getProductPriority p),
             alert_threshold = threshold (getProductPriority p),
             daysUntilEmpty = estimateDaysUntilEmpty p,
             suggestedQuantity = suggested_for calculateSuggestedQuantity p (getProductPriority p)\<rparr>]
      else [])"
  by (simp add: push_alert_def Let_def)

lemma pushed_products:
  "map product (concat (map (push_alert []) items))
     = filter (\<lambda>p. needs_attention (status (calculateStockStatus p))) items"
  by (induction items) (simp_all add: push_alert_single)

lemma pushed_status:
  "a \<in> set (concat (map (push_alert []) items)) \<Longrightarrow>
     alert_status a = status (calculateStockStatus (product a)) \<and> needs_attention (alert_status a)"
  by (induction items) (auto simp: push_alert_single split: if_splits)

text \<open>
  An alert is pushed only where the resolved threshold is a number: every alert of the
  module has a threshold and a suggested quantity, which is at least 10.
\<close>

lemma needs_attention_threshold:
  assumes "needs_attention (status (calculateStockStatus p))"
  shows "\<exists>t. threshold (getProductPriority p) = Some t"
  using assms
  by (cases "threshold (getProductPriority p)")
    (auto simp: calculateStockStatus_def Let_def js_le_def js_times_def needs_attention_def)

lemma pushed_suggestedQuantity:
  assumes "a \<in> set (concat (map (push_alert []) items))"
  shows "\<exists>t. alert_threshold a = Some t
     \<and> suggestedQuantity a = Some (max 10 (t * 3 - stock (product a)))"
  using assms
proof (induction items)
  case Nil
  then show ?case by simp
next
  case (Cons p ps)
  show ?case
  proof (cases "a \<in> set (push_alert [] p)")
    case True
    then have att: "needs_attention (status (calculateStockStatus p))"
      by (auto simp: push_alert_single split: if_splits)
    then obtain t where "threshold (getProductPriority p) = Some t"
      using needs_attention_threshold by blast
    with True att show ?thesis
      by (simp add: push_alert_single suggested_for_def calculateSuggestedQuantity_def)
  next
    case False
    with Cons show ?thesis by simp
  qed
qed

lemma js_insert_skip:
  "\<forall>y\<in>set ys. 0 < (case cmp x y of None \<Rightarrow> 0 | Some v \<Rightarrow> v) \<Longrightarrow>
     js_insert cmp x (ys @ zs) = ys @ js_insert cmp x zs"
  by (induction ys) auto

lemma js_insert_front:
  "\<forall>y\<in>set zs. (case cmp x y of None \<Rightarrow> 0 | Some v \<Rightarrow> v) \<le> 0 \<Longrightarrow>
     js_insert cmp x zs = x # zs"
  by (cases zs) auto

lemma priorityOrder_values:
  "priorityOrder URGENT = Some 3" "priorityOrder NORMAL = Some 2" "priorityOrder INFO = Some 1"
  by (simp_all add: priorityOrder_def)

lemma js_sort_urgency:
  fixes xs :: "('p, 'm) alert_scheme list"
  assumes "\<forall>a\<in>set xs. needs_attention (alert_status a)"
  shows "js_sort urgency_compare xs
     = filter (\<lambda>a. alert_status a = URGENT) xs
       @ filter (\<lambda>a. alert_status a = NORMAL) xs
       @ filter (\<lambda>a. alert_status a = INFO) xs"
  using assms
proof (induction xs)
  case Nil
  show ?case by (simp add: js_sort_def)
next
  case (Cons x xs)
  let ?U = "filter (\<lambda>a. alert_status a = URGENT) xs"
  let ?N = "filter (\<lambda>a. alert_status a = NORMAL) xs"
  let ?I = "filter (\<lambda>a. alert_status a = INFO) xs"
  have IH: "js_sort urgency_compare xs = ?U @ ?N @ ?I"
    using Cons by simp
  have step: "js_sort urgency_compare (x # xs) = js_insert urgency_compare x (?U @ ?N @ ?I)"
    using IH by (simp add: js_sort_def)
  from Cons.prems have "alert_status x = URGENT \<or> alert_status x = NORMAL \<or> alert_status x = INFO"
    by (simp add: needs_attention_def)
  then consider (u) "alert_status x = URGENT" | (n) "alert_status x = NORMAL" | (i) "alert_status x = INFO"
    by blast
  then show ?case
  proof cases
    case u
    have "\<forall>y\<in>set (?U @ ?N @ ?I). (case urgency_compare x y of None \<Rightarrow> 0 | Some v \<Rightarrow> v) \<le> 0"
      by (auto simp: urgency_compare_def priorityOrder_values u)
    then have "js_insert urgency_compare x (?U @ ?N @ ?I) = x # ?U @ ?N @ ?I"
      by (rule js_insert_front)
    with step u show ?thesis by simp
  next
    case n
    have skip: "\<forall>y\<in>set ?U. 0 < (case urgency_compare x y of None \<Rightarrow> 0 | Some v \<Rightarrow> v)"
      by (auto simp: urgency_compare_def priorityOrder_values n)
    have front: "\<forall>y\<in>set (?N @ ?I). (case urgency_compare x y of None \<Rightarrow> 0 | Some v \<Rightarrow> v) \<le> 0"
      by (auto simp: urgency_compare_def priorityOrder_values n)
    have "js_insert urgency_compare x (?U @ ?N @ ?I) = ?U @ js_insert urgency_compare x (?N @ ?I)"
      by (rule js_insert_skip) (rule skip)
    also have "js_insert urgency_compare x (?N @ ?I) = x # ?N @ ?I"
      by (rule js_insert_front) (rule front)
    finally have "js_insert urgency_compare x (?U @ ?N @ ?I) = ?U @ x # ?N @ ?I" .
    with step n show ?thesis by simp
  next
    case i
    have skip: "\<forall>y\<in>set (?U @ ?N). 0 < (case urgency_compare x y of None \<Rightarrow> 0 | Some v \<Rightarrow> v)"
      by (auto simp: urgency_compare_def priorityOrder_values i)
    have front: "\<forall>y\<in>set ?I. (case urgency_compare x y of None \<Rightarrow> 0 | Some v \<Rightarrow> v) \<le> 0"
      by (auto simp: urgency_compare_def priorityOrder_values i)
    have "js_insert urgency_compare x ((?U @ ?N) @ ?I) = (?U @ ?N) @ js_insert urgency_compare x ?I"
      by (rule js_insert_skip) (rule skip)
    also have "js_insert urgency_compare x ?I = x # ?I"
      by (rule js_insert_front) (rule front)
    finally have "js_insert urgency_compare x (?U @ ?N @ ?I) = ?U @ ?N @ x # ?I"
      by simp
    with step i show ?thesis by simp
  qed
qed

lemma filter_pushed:
  "map product (filter (\<lambda>a. alert_status a = s) (concat (map (push_alert []) items)))
     = (if needs_attention s then filter (\<lambda>p. status (calculateStockStatus p) = s) items else [])"
  by (induction items) (auto simp: push_alert_single)

lemma generateAlerts_alerts:
  "alerts (generateAlerts items st)
     = filter (\<lambda>a. alert_status a = URGENT) (concat (map (push_alert []) items))
       @ filter (\<lambda>a. alert_status a = NORMAL) (concat (map (push_alert []) items))
       @ filter (\<lambda>a. alert_status a = INFO) (concat (map (push_alert []) items))"
proof -
  have "\<forall>a\<in>set (concat (map (push_alert []) items)). needs_attention (alert_status a)"
    using pushed_status by blast
  from js_sort_urgency [OF this] show ?thesis
    by (simp add: generateAlerts_def Let_def foldl_push_alert)
qed

lemma generateAlerts_products:
  "map product (alerts (generateAlerts items st))
     = filter (\<lambda>p. status (calculateStockStatus p) = URGENT) items
       @ filter (\<lambda>p. status (calculateStockStatus p) = NORMAL) items
       @ filter (\<lambda>p. status (calculateStockStatus p) = INFO) items"
  by (simp add: generateAlerts_alerts filter_pushed needs_attention_def)

lemma mset_three_filters:
  "mset (filter (\<lambda>p. f p = URGENT) xs @ filter (\<lambda>p. f p = NORMAL) xs
     @ filter (\<lambda>p. f p = INFO) xs)
   = mset (filter (\<lambda>p. needs_attention (f p)) xs)"
  by (induction xs) (auto simp: needs_attention_def)

lemma map_filter_key:
  "map f (filter (\<lambda>a. f a = k) xs) = replicate (length (filter (\<lambda>a. f a = k) xs)) k"
  by (induction xs) simp_all

lemma sample_status:
  "status (calculateStockStatus vodka) = URGENT"
  "status (calculateStockStatus wine) = NORMAL"
  "status (calculateStockStatus cola) = INFO"
  "status (calculateStockStatus rum) = GOOD"
  "status (calculateStockStatus beer) = OPTIMAL"
  by (simp_all add: calculateStockStatus_def js_le_def js_times_def sample_config sample_stock)

lemma sample_status_controller:
  "status (calculateStockStatus_controller vodka) = URGENT"
  "status (calculateStockStatus_controller wine) = NORMAL"
  "status (calculateStockStatus_controller cola) = INFO"
  "status (calculateStockStatus_controller rum) = GOOD"
  "status (calculateStockStatus_controller beer) = OPTIMAL"
  by (simp_all add: calculateStockStatus_controller_def sample_controller sample_stock)

lemma generateAlerts_status:
  "map alert_status (alerts (generateAlerts items st))
     = map (\<lambda>p. status (calculateStockStatus p)) (map product (alerts (generateAlerts items st)))"
proof -
  have "a \<in> set (alerts (generateAlerts items st)) \<Longrightarrow>
      alert_status a = status (calculateStockStatus (product a))" for a
    using pushed_status [of a items] by (auto simp: generateAlerts_alerts)
  then show ?thesis by simp
qed

lemma generateAlerts_counts:
  "urgentCount (generateAlerts items st)
     = length (filter (\<lambda>a. alert_status a = URGENT) (alerts (generateAlerts items st)))"
  "normalCount (generateAlerts items st)
     = length (filter (\<lambda>a. alert_status a = NORMAL) (alerts (generateAlerts items st)))"
  "infoCount (generateAlerts items st)
     = length (filter (\<lambda>a. alert_status a = INFO) (alerts (generateAlerts items st)))"
  by (simp_all add: generateAlerts_def Let_def)

lemma generateAlerts_blocks:
  "map alert_status (alerts (generateAlerts items st))
     = replicate (urgentCount (generateAlerts items st)) URGENT
       @ replicate (normalCount (generateAlerts items st)) NORMAL
       @ replicate (infoCount (generateAlerts items st)) INFO"
  unfolding generateAlerts_counts
  by (simp add: generateAlerts_alerts map_filter_key [symmetric] cong: conj_cong)

lemma generateAlerts_mixed_batch:
  "map (\<lambda>a. (name (product a), alert_status a)) (alerts (generateAlerts mixed_batch st))
     = [(''Vodka'', URGENT), (''Wine'', NORMAL), (''Cola'', INFO)]"
  by (simp add: generateAlerts_alerts push_alert_single mixed_batch_def sample_status
      needs_attention_def)
    (simp add: vodka_def wine_def cola_def sample_def)

lemma length_three_filters:
  "length (filter (\<lambda>p. f p = URGENT) xs) + length (filter (\<lambda>p. f p = NORMAL) xs)
     + length (filter (\<lambda>p. f p = INFO) xs)
   = length (filter (\<lambda>p. needs_attention (f p)) xs)"
  by (induction xs) (auto simp: needs_attention_def)

lemma generateAlerts_length:
  "length (alerts (generateAlerts items st))
     = length (filter (\<lambda>p. needs_attention (status (calculateStockStatus p))) items)"
proof -
  have "length (alerts (generateAlerts items st))
      = length (map product (alerts (generateAlerts items st)))"
    by simp
  also have "\<dots> = length (filter (\<lambda>p. needs_attention (status (calculateStockStatus p))) items)"
    unfolding generateAlerts_products
    by (simp add: length_three_filters [symmetric])
  finally show ?thesis .
qed

text \<open>The controller's loop, with the classifier of the controller.\<close>

lemma push_alert_controller_single:
  "push_alert_controller [] item =
     (if needs_attention (status (calculateStockStatus_controller item))
      then [\<lparr>product = \<lparr>pv_id = item_id item, pv_name = name item,
                         pv_category = category item, pv_stock = stock item\<rparr>,
             alert_status = status (calculateStockStatus_controller item),
             alert_message = message (calculateStockStatus_controller item),
             alert_priority = cfg_priority (getProductPriority item),
             alert_threshold = threshold (getProductPriority item),
             daysUntilEmpty = estimateDaysUntilEmpty_controller item,
             suggestedQuantity =
               suggested_for calculateSuggestedQuantity_controller item (getProductPriority item),
             alert_id = item_id item\<rparr>]
      else [])"
  by (simp add: push_alert_controller_def Let_def)

lemma foldl_push_alert_controller:
  "foldl push_alert_controller acc items = acc @ concat (map (push_alert_controller []) items)"
proof (induction items arbitrary: acc)
  case Nil
  show ?case by simp
next
  case (Cons p ps)
  have "push_alert_controller acc p = acc @ push_alert_controller [] p"
    by (simp add: push_alert_controller_def Let_def)
  then show ?case
    by (simp add: Cons.IH)
qed

lemma pushed_controller_status:
  "a \<in> set (concat (map (push_alert_controller []) items)) \<Longrightarrow> needs_attention (alert_status a)"
  by (induction items) (auto simp: push_alert_controller_single split: if_splits)

lemma filter_pushed_controller:
  "map (\<lambda>a. (product a, alert_status a))
      (filter (\<lambda>a. alert_status a = s) (concat (map (push_alert_controller []) items)))
     = (if needs_attention s
        then map (\<lambda>p. (\<lparr>pv_id = item_id p, pv_name = name p, pv_category = category p,
                          pv_stock = stock p\<rparr>, s))
               (filter (\<lambda>p. status (calculateStockStatus_controller p) = s) items)
        else [])"
  by (induction items) (auto simp: push_alert_controller_single)

lemma getAlerts_controller_alerts:
  "getAlerts_controller (Some items)
     = filter (\<lambda>a. alert_status a = URGENT) (concat (map (push_alert_controller []) items))
       @ filter (\<lambda>a. alert_status a = NORMAL) (concat (map (push_alert_controller []) items))
       @ filter (\<lambda>a. alert_status a = INFO) (concat (map (push_alert_controller []) items))"
proof -
  have "\<forall>a\<in>set (concat (map (push_alert_controller []) items)). needs_attention (alert_status a)"
    using pushed_controller_status by blast
  from js_sort_urgency [OF this] show ?thesis
    by (simp add: getAlerts_controller_def foldl_push_alert_controller)
qed

lemma getAlerts_controller_products:
  "map (\<lambda>a. (product a, alert_status a)) (getAlerts_controller (Some items))
     = map (\<lambda>p. (\<lparr>pv_id = item_id p, pv_name = name p, pv_category = category p,
                    pv_stock = stock p\<rparr>, status (calculateStockStatus_controller p)))
         (filter (\<lambda>p. status (calculateStockStatus_controller p) = URGENT) items
          @ filter (\<lambda>p. status (calculateStockStatus_controller p) = NORMAL) items
          @ filter (\<lambda>p. status (calculateStockStatus_controller p) = INFO) items)"
  by (simp add: getAlerts_controller_alerts filter_pushed_controller needs_attention_def)

lemma getAlerts_controller_mixed_batch:
  "map (\<lambda>a. (pv_name (product a), alert_status a)) (getAlerts_controller (Some mixed_batch))
     = [(''Vodka'', URGENT), (''Wine'', NORMAL), (''Cola'', INFO)]"
  by (simp add: getAlerts_controller_alerts push_alert_controller_single mixed_batch_def
      sample_status_controller needs_attention_def)
    (simp add: vodka_def wine_def cola_def sample_def)

text \<open>
  Claim C3. The alerts \<open>generateAlerts\<close> stores are, product by product, the items
  classified URGENT in inventory order, then those classified NORMAL, then those
  classified INFO: one alert for each item needing attention, none for an item classified
  GOOD or OPTIMAL, each alert carrying its item's status, all URGENT alerts before all
  NORMAL before all INFO. For the mixed batch of five the alerts are Vodka (urgent), Wine
  (normal), Cola (info). The controller's \<open>getAlerts\<close> selects and orders the documents
  of the snapshot in the same way, by the status the controller's own classifier gives.
\<close>

theorem generateAlerts_selects_and_orders:
  "map product (alerts (generateAlerts items st))
     = filter (\<lambda>p. status (calculateStockStatus p) = URGENT) items
       @ filter (\<lambda>p. status (calculateStockStatus p) = NORMAL) items
       @ filter (\<lambda>p. status (calculateStockStatus p) = INFO) items
   \<and> mset (map product (alerts (generateAlerts items st)))
     = mset (filter (\<lambda>p. needs_attention (status (calculateStockStatus p))) items)
   \<and> map alert_status (alerts (generateAlerts items st))
     = map (\<lambda>p. status (calculateStockStatus p)) (map product (alerts (generateAlerts items st)))
   \<and> map alert_status (alerts (generateAlerts items st))
     = replicate (urgentCount (generateAlerts items st)) URGENT
       @ replicate (normalCount (generateAlerts items st)) NORMAL
       @ replicate (infoCount (generateAlerts items st)) INFO
   \<and> map (\<lambda>a. (name (product a), alert_status a)) (alerts (generateAlerts mixed_batch st))
     = [(''Vodka'', URGENT), (''Wine'', NORMAL), (''Cola'', INFO)]
   \<and> map (\<lambda>a. (product a, alert_status a)) (getAlerts_controller (Some items))
     = map (\<lambda>p. (\<lparr>pv_id = item_id p, pv_name = name p, pv_category = category p,
                    pv_stock = stock p\<rparr>, status (calculateStockStatus_controller p)))
         (filter (\<lambda>p. status (calculateStockStatus_controller p) = URGENT) items
          @ filter (\<lambda>p. status (calculateStockStatus_controller p) = NORMAL) items
          @ filter (\<lambda>p. status (calculateStockStatus_controller p) = INFO) items)
   \<and> map (\<lambda>a. (pv_name (product a), alert_status a)) (getAlerts_controller (Some mixed_batch))
     = [(''Vodka'', URGENT), (''Wine'', NORMAL), (''Cola'', INFO)]
   \<and> getAlerts_controller None = []"
proof -
  have "mset (map product (alerts (generateAlerts items st)))
     = mset (filter (\<lambda>p. needs_attention (status (calculateStockStatus p))) items)"
    unfolding generateAlerts_products
    by (rule mset_three_filters)
  then show ?thesis
    using generateAlerts_products [of items st] generateAlerts_status [of items st]
      generateAlerts_blocks [of items st] generateAlerts_mixed_batch [of st]
      getAlerts_controller_products [of items] getAlerts_controller_mixed_batch
    by (simp add: getAlerts_controller_def)
qed

text \<open>
  Claim C8. \<open>getDisplayAlerts\<close> returns the first 6 alerts, all of them when there are 6
  or fewer; \<open>getHiddenAlertCount\<close> is \<open>max(0, total - 6)\<close>; the list itself keeps every
  alert: \<open>getAlerts\<close> still returns all of them, the displayed ones being its prefix, and
  \<open>generateAlerts\<close> stores one alert for each item needing attention whatever their number.
\<close>

theorem display_cap:
  "getDisplayAlerts st = take 6 (alerts st)
   \<and> (length (alerts st) \<le> 6 \<longrightarrow> getDisplayAlerts st = alerts st)
   \<and> length (getDisplayAlerts st) = min 6 (length (alerts st))
   \<and> getHiddenAlertCount st = max 0 (int (length (alerts st)) - 6)
   \<and> getAlerts st = alerts st
   \<and> getDisplayAlerts st @ drop 6 (getAlerts st) = getAlerts st
   \<and> length (getAlerts (generateAlerts items st))
     = length (filter (\<lambda>p. needs_attention (status (calculateStockStatus p))) items)"
  by (simp add: getDisplayAlerts_def getHiddenAlertCount_def getAlerts_def MAX_VISIBLE_ALERTS_def
      generateAlerts_length)

theorem display_cap_witness:
  "length (alerts (generateAlerts mixed_batch initial_alertState)) \<le> 6
   \<and> getDisplayAlerts (generateAlerts mixed_batch initial_alertState)
     = alerts (generateAlerts mixed_batch initial_alertState)
   \<and> getHiddenAlertCount (generateAlerts mixed_batch initial_alertState) = 0
   \<and> length (getAlerts (generateAlerts (replicate 10 vodka) initial_alertState)) = 10
   \<and> length (getDisplayAlerts (generateAlerts (replicate 10 vodka) initial_alertState)) = 6
   \<and> getHiddenAlertCount (generateAlerts (replicate 10 vodka) initial_alertState) = 4"
proof -
  have three: "length (alerts (generateAlerts mixed_batch initial_alertState)) = 3"
    by (simp add: generateAlerts_length mixed_batch_def sample_status needs_attention_def)
  have ten: "length (alerts (generateAlerts (replicate 10 vodka) initial_alertState)) = 10"
    by (simp add: generateAlerts_length sample_status needs_attention_def)
  show ?thesis
    using display_cap [of "generateAlerts mixed_batch initial_alertState" mixed_batch]
      display_cap [of "generateAlerts (replicate 10 vodka) initial_alertState" "replicate 10 vodka"]
    by (simp add: three ten)
qed

section \<open>Properties of the permission predicates\<close>

text \<open>
  Claim C7. After the authentication handler has run for a signed-in user,
  \<open>canModifyStock\<close> holds whatever the role; after it has run for no user, and in the
  initial state, it does not. \<open>canManageProducts\<close> holds exactly for the roles manager and
  admin, \<open>canManagePriorities\<close> exactly for admin. So staff may modify stock but not manage
  products, a manager may manage products but not priorities, an admin may do all three.
\<close>

theorem permission_predicates:
  "canModifyStock (authStateChanged (Some u) st)
   \<and> \<not> canModifyStock (authStateChanged None st)
   \<and> \<not> canModifyStock initial_authState
   \<and> canModifyStock (authStateChanged v st) = isAuthenticated (authStateChanged v st)
   \<and> userRole (authStateChanged (Some u) st) = js_or_str (USER_ROLES (email u)) ''staff''
   \<and> canManageProducts s = (userRole s = ''manager'' \<or> userRole s = ''admin'')
   \<and> canManagePriorities s = (userRole s = ''admin'')
   \<and> canModifyStock (authStateChanged (Some \<lparr>email = ''staff@inventory.com''\<rparr>) st)
   \<and> \<not> canManageProducts (authStateChanged (Some \<lparr>email = ''staff@inventory.com''\<rparr>) st)
   \<and> \<not> canManagePriorities (authStateChanged (Some \<lparr>email = ''staff@inventory.com''\<rparr>) st)
   \<and> canModifyStock (authStateChanged (Some \<lparr>email = ''manager@inventory.com''\<rparr>) st)
   \<and> canManageProducts (authStateChanged (Some \<lparr>email = ''manager@inventory.com''\<rparr>) st)
   \<and> \<not> canManagePriorities (authStateChanged (Some \<lparr>email = ''manager@inventory.com''\<rparr>) st)
   \<and> canModifyStock (authStateChanged (Some \<lparr>email = ''admin@inventory.com''\<rparr>) st)
   \<and> canManageProducts (authStateChanged (Some \<lparr>email = ''admin@inventory.com''\<rparr>) st)
   \<and> canManagePriorities (authStateChanged (Some \<lparr>email = ''admin@inventory.com''\<rparr>) st)"
proof -
  have roles:
    "userRole (authStateChanged (Some \<lparr>email = ''staff@inventory.com''\<rparr>) st) = ''staff''"
    "userRole (authStateChanged (Some \<lparr>email = ''manager@inventory.com''\<rparr>) st) = ''manager''"
    "userRole (authStateChanged (Some \<lparr>email = ''admin@inventory.com''\<rparr>) st) = ''admin''"
    by (simp_all add: authStateChanged_def USER_ROLES_def js_or_str_def)
  have auth: "canModifyStock (authStateChanged (Some u) st)" for u
    by (simp add: canModifyStock_def authStateChanged_def)
  have same: "canModifyStock (authStateChanged v st) = isAuthenticated (authStateChanged v st)"
    by (cases v) (simp_all add: canModifyStock_def authStateChanged_def)
  have out: "\<not> canModifyStock (authStateChanged None st)" "\<not> canModifyStock initial_authState"
    by (simp_all add: canModifyStock_def authStateChanged_def initial_authState_def)
  have role: "userRole (authStateChanged (Some u) st) = js_or_str (USER_ROLES (email u)) ''staff''"
    by (simp add: authStateChanged_def)
  have preds: "canManageProducts s = (userRole s = ''manager'' \<or> userRole s = ''admin'')"
    "canManagePriorities s = (userRole s = ''admin'')"
    by (auto simp: canManageProducts_def canManagePriorities_def)
  show ?thesis
    using auth same out role preds
    by (simp add: canManageProducts_def canManagePriorities_def roles)
qed

section \<open>Properties of the stock update\<close>

text \<open>Every error leaves the collection as it was.\<close>

lemma updateStock_error_keeps_collection:
  "snd (updateStock db req) = Inl e \<Longrightarrow> fst (updateStock db req) = db"
  by (auto simp: updateStock_def write_stock_def Let_def split: option.splits if_splits)

text \<open>Subtracting more than the stock is an error, and the collection stays as it was.\<close>

lemma updateStock_subtract_too_much:
  assumes "db = Some coll" and "coll (req_id req) = Some doc"
    and "quantity req = Some q" and "action req = Some ''subtract''" and "stock doc < q"
  shows "updateStock db req = (db, Inl (ApiError 400 ''Cannot have negative stock''))"
  using assms by (simp add: updateStock_def)

text \<open>
  A subtraction that succeeds, and an addition of a quantity that is not negative, keep
  every stock of the collection non-negative.
\<close>

lemma updateStock_subtract_nonnegative:
  assumes "updateStock (Some coll) req = (Some coll', Inr r)" and "action req = Some ''subtract''"
    and "coll' i = Some doc'" and "\<forall>d. coll i = Some d \<longrightarrow> 0 \<le> stock d"
  shows "0 \<le> stock doc'"
  using assms
  by (auto simp: updateStock_def write_stock_def Let_def split: option.splits if_splits)

lemma updateStock_add_nonnegative:
  assumes "updateStock (Some coll) req = (Some coll', Inr r)" and "action req = Some ''add''"
    and "quantity req = Some q" and "0 \<le> q"
    and "coll' i = Some doc'" and "\<forall>d. coll i = Some d \<longrightarrow> 0 \<le> stock d"
  shows "0 \<le> stock doc'"
  using assms
  by (auto simp: updateStock_def write_stock_def Let_def split: option.splits if_splits)

text \<open>The browser module rejects every negative new stock, whatever the action was.\<close>

lemma updateStock_module_rejects_negative:
  "new < 0 \<Longrightarrow>
     updateStock_module coll itemId new by_user = (coll, Inl ''Cannot have negative stock!'')"
  by (simp add: updateStock_module_def)

lemma updateStock_module_nonnegative:
  assumes "updateStock_module coll itemId new by_user = (coll', r)"
    and "coll' i = Some doc'" and "\<forall>d. coll i = Some d \<longrightarrow> 0 \<le> stock d"
  shows "0 \<le> stock doc'"
  using assms
  by (auto simp: updateStock_module_def split: option.splits if_splits)

text \<open>
  Claim C2 holds for the subtraction and for the browser module, as the lemmas above say,
  but not for the controller's \<open>add\<close>: the negative-stock check sits in the
  \<open>subtract\<close> branch only. Adding the quantity \<open>-5\<close> to a stock of 3 is answered with
  success and stores the stock \<open>-2\<close>.
\<close>

theorem updateStock_add_negative_quantity:
  "map_option stock (shelf ''item1'') = Some 3
   \<and> updateStock (Some shelf) (stock_change ''add'' (- 5))
     = (Some (shelf(''item1'' \<mapsto>
          (sample ''Vodka'' ''Spirits'' (- 2))\<lparr>updatedBy := ''staff@inventory.com''\<rparr>)),
        Inr \<lparr>resp_id = ''item1'', previousStock = 3, newStock = - 2, change = - 5\<rparr>)
   \<and> map_option stock
        ((shelf(''item1'' \<mapsto>
           (sample ''Vodka'' ''Spirits'' (- 2))\<lparr>updatedBy := ''staff@inventory.com''\<rparr>)) ''item1'')
     = Some (- 2)
   \<and> updateStock (Some shelf) (stock_change ''subtract'' 5)
     = (Some shelf, Inl (ApiError 400 ''Cannot have negative stock''))
   \<and> updateStock_module shelf ''item1'' (3 + (- 5)) ''staff@inventory.com''
     = (shelf, Inl ''Cannot have negative stock!'')"
  by (simp add: updateStock_def write_stock_def updateStock_module_def shelf_def
      stock_change_def sample_def)

section \<open>Properties of the CSV export\<close>

lemma show_small:
  "show_int 1 = ''1''" "show_int 2 = ''2''" "show_int 10 = ''10''"
  by (simp_all add: show_int_def show_nat.simps digit_char_def)

lemma sublist_join:
  "x \<in> set ys \<Longrightarrow> sublist x (join sep ys)"
proof (induction sep ys rule: join.induct)
  case (1 sep)
  then show ?case by simp
next
  case (2 sep y)
  then show ?case by simp
next
  case (3 sep y z zs)
  show ?case
  proof (cases "x = y")
    case True
    then show ?thesis by simp
  next
    case False
    with 3 have "sublist x (join sep (z # zs))" by simp
    then obtain ps ss where "join sep (z # zs) = ps @ x @ ss"
      by (auto simp: sublist_def)
    then have "join sep (y # z # zs) = (y @ sep @ ps) @ x @ ss"
      by simp
    then show ?thesis
      unfolding sublist_def by blast
  qed
qed

lemma csv_row_prefix:
  "prefix ([dquote] @ name (product a) @ [dquote] @ '','') (csv_row a)"
  by (simp add: csv_row_def)

lemma csv_row_controller_prefix:
  "prefix ([dquote] @ name item @ [dquote] @ '','') (csv_row_controller item)"
  by (simp add: csv_row_controller_def Let_def)

lemma sample_classified_urgent:
  "calculateStockStatus (sample n ''Spirits'' 1)
     = \<lparr>status = URGENT, message = ''URGENT: Needs immediate restock!''\<rparr>"
  "getProductPriority (sample n ''Spirits'' 1)
     = \<lparr>cfg_priority = Some ''high'', threshold = Some 2\<rparr>"
  "calculateStockStatus_controller (sample n ''Spirits'' 1)
     = \<lparr>status = URGENT, message = ''URGENT: Needs immediate restock!''\<rparr>"
  by (simp_all add: calculateStockStatus_def calculateStockStatus_controller_def
      getProductPriority_def categoryDefault_def threshold_controller_def
      priority_controller_def table_threshold_def table_priority_def js_lookup_def
      DEFAULT_PRIORITIES_def js_or_str_opt_def js_or_num_opt_def js_or_str_def js_or_num_def
      js_le_def sample_def)

lemma sample_fields:
  "name (sample n c s) = n" "category (sample n c s) = c" "stock (sample n c s) = s"
  by (simp_all add: sample_def)

lemma single_spirit_alerts:
  "alerts (generateAlerts [sample n ''Spirits'' 1] st)
     = [\<lparr>product = sample n ''Spirits'' 1, alert_status = URGENT,
          alert_message = ''URGENT: Needs immediate restock!'', alert_priority = Some ''high'',
          alert_threshold = Some 2, daysUntilEmpty = 1, suggestedQuantity = Some 10\<rparr>]"
  by (simp add: generateAlerts_alerts push_alert_single sample_classified_urgent
      needs_attention_def estimateDaysUntilEmpty_def calculateSuggestedQuantity_def
      suggested_for_def)
    (simp add: sample_def)

lemma exportAlerts_controller_rows:
  "exportAlerts_controller (Some snapshot)
     = ''Product,Category,Current Stock,Threshold,Priority,Status,Message,Days Until Empty''
       @ [newline]
       @ concat (map csv_row_controller
           (filter (\<lambda>item. needs_attention (status (calculateStockStatus_controller item)))
              snapshot))"
proof -
  have "foldl (\<lambda>csvContent item.
            if needs_attention (status (calculateStockStatus_controller item))
            then csvContent @ csv_row_controller item else csvContent) acc snapshot
      = acc @ concat (map csv_row_controller
           (filter (\<lambda>item. needs_attention (status (calculateStockStatus_controller item)))
              snapshot))"
    for acc
    by (induction snapshot arbitrary: acc) simp_all
  then show ?thesis
    by (simp add: exportAlerts_controller_def)
qed

lemma sublist_concat:
  "x \<in> set xs \<Longrightarrow> sublist x (concat xs)"
proof -
  assume "x \<in> set xs"
  then obtain ys zs where "xs = ys @ x # zs"
    by (auto simp: in_set_conv_decomp)
  then have "concat xs = concat ys @ x @ concat zs"
    by simp
  then show ?thesis
    unfolding sublist_def by blast
qed

lemma exportAlerts_controller_row:
  assumes "item \<in> set snapshot"
    and "needs_attention (status (calculateStockStatus_controller item))"
  shows "sublist (csv_row_controller item) (exportAlerts_controller (Some snapshot))"
proof -
  have "csv_row_controller item \<in> set (map csv_row_controller
      (filter (\<lambda>item. needs_attention (status (calculateStockStatus_controller item))) snapshot))"
    using assms by simp
  then have "sublist (csv_row_controller item) (concat (map csv_row_controller
      (filter (\<lambda>item. needs_attention (status (calculateStockStatus_controller item))) snapshot)))"
    by (rule sublist_concat)
  then show ?thesis
    unfolding exportAlerts_controller_rows sublist_def
    by (metis append.assoc)
qed

text \<open>
  For every alert the export holds the product name, as it is, between two double quotes,
  followed by a comma. The controller's export writes the name of every document needing
  attention in the same way.
\<close>

lemma exportAlertsAsCSV_quotes_name:
  assumes "a \<in> set (alerts st)"
    and "item \<in> set snapshot"
    and "needs_attention (status (calculateStockStatus_controller item))"
  shows "sublist ([dquote] @ name (product a) @ [dquote]) (content (exportAlertsAsCSV st))
       \<and> sublist (csv_row a) (content (exportAlertsAsCSV st))
       \<and> prefix ([dquote] @ name (product a) @ [dquote] @ '','') (csv_row a)
       \<and> sublist ([dquote] @ name item @ [dquote]) (exportAlerts_controller (Some snapshot))
       \<and> sublist (csv_row_controller item) (exportAlerts_controller (Some snapshot))
       \<and> prefix ([dquote] @ name item @ [dquote] @ '','') (csv_row_controller item)"
proof -
  have row: "sublist (csv_row a) (content (exportAlertsAsCSV st))"
    using assms(1) by (simp add: exportAlertsAsCSV_def Let_def sublist_join)
  have "prefix ([dquote] @ name (product a) @ [dquote]) (csv_row a)"
    by (simp add: csv_row_def)
  then have "sublist ([dquote] @ name (product a) @ [dquote]) (csv_row a)"
    by (rule prefix_imp_sublist)
  then have field: "sublist ([dquote] @ name (product a) @ [dquote]) (content (exportAlertsAsCSV st))"
    using row by (rule sublist_order.order.trans)
  have crow: "sublist (csv_row_controller item) (exportAlerts_controller (Some snapshot))"
    using assms(2,3) by (rule exportAlerts_controller_row)
  have "prefix ([dquote] @ name item @ [dquote]) (csv_row_controller item)"
    by (simp add: csv_row_controller_def Let_def)
  then have "sublist ([dquote] @ name item @ [dquote]) (csv_row_controller item)"
    by (rule prefix_imp_sublist)
  then have cfield: "sublist ([dquote] @ name item @ [dquote]) (exportAlerts_controller (Some snapshot))"
    using crow by (rule sublist_order.order.trans)
  show ?thesis
    using row field crow cfield csv_row_prefix [of a] csv_row_controller_prefix [of item]
    by simp
qed

text \<open>Apostrophes are kept: the item \<open>Jack Daniel's\<close> appears quoted in both exports.\<close>

lemma exportAlertsAsCSV_jack_daniels:
  "map (\<lambda>a. name (product a)) (alerts (generateAlerts [jack_daniels] initial_alertState))
     = [''Jack Daniel'' @ [apostrophe] @ ''s'']
   \<and> sublist ([dquote] @ ''Jack Daniel'' @ [apostrophe] @ ''s'' @ [dquote])
        (content (exportAlertsAsCSV (generateAlerts [jack_daniels] initial_alertState)))
   \<and> needs_attention (status (calculateStockStatus_controller jack_daniels))
   \<and> sublist ([dquote] @ ''Jack Daniel'' @ [apostrophe] @ ''s'' @ [dquote])
        (exportAlerts_controller (Some [jack_daniels]))"
proof -
  let ?st = "generateAlerts [jack_daniels] initial_alertState"
  let ?a = "\<lparr>product = jack_daniels, alert_status = URGENT,
      alert_message = ''URGENT: Needs immediate restock!'', alert_priority = Some ''high'',
      alert_threshold = Some 2, daysUntilEmpty = 1, suggestedQuantity = Some 10\<rparr>"
  have al: "alerts ?st = [?a]"
    unfolding jack_daniels_def by (rule single_spirit_alerts)
  then have mem: "?a \<in> set (alerts ?st)"
    by simp
  have nm: "name jack_daniels = ''Jack Daniel'' @ [apostrophe] @ ''s''"
    by (simp add: jack_daniels_def sample_fields)
  have doc: "jack_daniels \<in> set [jack_daniels]"
    by simp
  have att: "needs_attention (status (calculateStockStatus_controller jack_daniels))"
    by (simp add: jack_daniels_def sample_classified_urgent needs_attention_def)
  show ?thesis
    using exportAlertsAsCSV_quotes_name [OF mem doc att] al nm att by simp
qed

lemma old_no7_content:
  "content (exportAlertsAsCSV (generateAlerts [old_no7] initial_alertState))
     = ''Product,Category,Current Stock,Threshold,Priority,Status,Message,Days Until Empty,Suggested Quantity''
       @ [newline, dquote] @ ''Old '' @ [dquote] @ ''No. 7'' @ [dquote, dquote]
       @ '',Spirits,1,2,high,URGENT,'' @ [dquote] @ ''URGENT: Needs immediate restock!''
       @ [dquote] @ '',1,10''"
  unfolding old_no7_def
  by (simp add: exportAlertsAsCSV_def single_spirit_alerts csv_row_def csv_headers_def
      show_small toUpperCase_def sample_fields join_element_def show_number_def)

lemma old_no7_controller_content:
  "exportAlerts_controller (Some [old_no7])
     = ''Product,Category,Current Stock,Threshold,Priority,Status,Message,Days Until Empty''
       @ [newline, dquote] @ ''Old '' @ [dquote] @ ''No. 7'' @ [dquote, dquote]
       @ '',Spirits,1,2,high,urgent,'' @ [dquote] @ ''URGENT: Needs immediate restock!''
       @ [dquote] @ '',1'' @ [newline]"
  unfolding old_no7_def
  by (simp add: exportAlerts_controller_rows csv_row_controller_def sample_classified_urgent
      needs_attention_def show_small sample_fields template_element_def
      estimateDaysUntilEmpty_controller_def)

text \<open>
  Claim C6 holds as far as the quoting goes, as the lemmas above say, but not for a name
  with a double quote in it: neither export escapes anything. The name \<open>Old "No. 7"\<close> is
  written between two double quotes with its own quotes as they are, so the field ends
  after \<open>Old\<close> for a reader of CSV; the field RFC 4180 prescribes for the name, with each
  inner quote doubled, occurs neither in the module's content nor in the controller's.
\<close>

theorem exportAlertsAsCSV_embedded_quote:
  "dquote \<in> set (name old_no7)
   \<and> alerts (generateAlerts [old_no7] initial_alertState) \<noteq> []
   \<and> sublist ([dquote] @ ''Old '' @ [dquote] @ ''No. 7'' @ [dquote, dquote] @ '','')
        (content (exportAlertsAsCSV (generateAlerts [old_no7] initial_alertState)))
   \<and> \<not> sublist (csv_escaped_field (name old_no7))
        (content (exportAlertsAsCSV (generateAlerts [old_no7] initial_alertState)))
   \<and> needs_attention (status (calculateStockStatus_controller old_no7))
   \<and> sublist ([dquote] @ ''Old '' @ [dquote] @ ''No. 7'' @ [dquote, dquote] @ '','')
        (exportAlerts_controller (Some [old_no7]))
   \<and> \<not> sublist (csv_escaped_field (name old_no7)) (exportAlerts_controller (Some [old_no7]))"
proof -
  have a: "dquote \<in> set (name old_no7)"
    by (simp add: old_no7_def sample_def)
  have b: "alerts (generateAlerts [old_no7] initial_alertState) \<noteq> []"
    unfolding old_no7_def by (simp add: single_spirit_alerts)
  have c: "\<not> sublist (csv_escaped_field (name old_no7))
        (content (exportAlertsAsCSV (generateAlerts [old_no7] initial_alertState)))"
    unfolding old_no7_content
    by (simp add: csv_escaped_field_def old_no7_def sample_fields dquote_def newline_def
        sublist_Cons_right)
  have d: "needs_attention (status (calculateStockStatus_controller old_no7))"
    by (simp add: old_no7_def sample_classified_urgent needs_attention_def)
  have e: "\<not> sublist (csv_escaped_field (name old_no7)) (exportAlerts_controller (Some [old_no7]))"
    unfolding old_no7_controller_content
    by (simp add: csv_escaped_field_def old_no7_def sample_fields dquote_def newline_def
        sublist_Cons_right)
  have f: "sublist ([dquote] @ ''Old '' @ [dquote] @ ''No. 7'' @ [dquote, dquote] @ '','')
        (content (exportAlertsAsCSV (generateAlerts [old_no7] initial_alertState)))"
    unfolding old_no7_content
    by (simp add: dquote_def newline_def sublist_Cons_right)
  have g: "sublist ([dquote] @ ''Old '' @ [dquote] @ ''No. 7'' @ [dquote, dquote] @ '','')
        (exportAlerts_controller (Some [old_no7]))"
    unfolding old_no7_controller_content
    by (simp add: dquote_def newline_def sublist_Cons_right)
  from a b c d e f g show ?thesis
    by simp
qed

end
